theory Spec2Isabelle
  imports Complex_Main
begin

section \<open>The inner product layer of caffe: data model\<close>

text \<open>
  The development embeds \<^verbatim>\<open>src/caffe/layers/inner_product_layer.cpp\<close>.
  A value of \<^verbatim>\<open>Dtype\<close> (float or double) is read as the \<^typ>\<open>real\<close> number it stands
  for. The linear-algebra provider is modelled by its contract in exact arithmetic; the
  arithmetic that the source itself does in \<^verbatim>\<open>Dtype\<close> (in \<^verbatim>\<open>normalize_weights\<close>) rounds,
  and is a parameter of the model. Dimensions are natural numbers (the source's \<^verbatim>\<open>int\<close>s are
  checked non-negative by the tensor class), and a buffer is the list of its elements in
  storage order; a pointer into a buffer is the buffer together with a start index.
\<close>

subsection \<open>Tensors\<close>

text \<open>
  Modelled from the spec: the class \<^verbatim>\<open>Blob\<close> (caffe/blob.hpp) is not part of the source file.
  The spec's Tensor is a numeric buffer with the shape convention (batch, channels, height,
  width), a data view and a diff view of identical shape. \<^verbatim>\<open>count\<close> is the number of
  elements, \<^verbatim>\<open>offset\<close> the position of element (n, c, h, w) in storage order, and
  \<^verbatim>\<open>Reshape\<close> (also run by the constructor) gives both views fresh zeroed storage of the
  new size.
\<close>

record blob =
  num :: nat
  channels :: nat
  height :: nat
  width :: nat
  data :: "real list"
  diff :: "real list"

definition count :: "blob \<Rightarrow> nat" where
  "count b = num b * channels b * height b * width b"

definition offset :: "blob \<Rightarrow> nat \<Rightarrow> nat \<Rightarrow> nat \<Rightarrow> nat \<Rightarrow> nat" where
  "offset b n c h w = ((n * channels b + c) * height b + h) * width b + w"

definition Reshape :: "nat \<Rightarrow> nat \<Rightarrow> nat \<Rightarrow> nat \<Rightarrow> blob \<Rightarrow> blob" where
  "Reshape n c h w b =
     b\<lparr>num := n, channels := c, height := h, width := w,
       data := replicate (n * c * h * w) 0, diff := replicate (n * c * h * w) 0\<rparr>"

definition new_Blob :: "nat \<Rightarrow> nat \<Rightarrow> nat \<Rightarrow> nat \<Rightarrow> blob" where
  "new_Blob n c h w =
     Reshape n c h w \<lparr>num = 0, channels = 0, height = 0, width = 0, data = [], diff = []\<rparr>"

subsection \<open>Initializer strategies\<close>

text \<open>
  Modelled from the spec: the fillers (caffe/filler.hpp) are not part of the source file.
  The spec's contract is that \<^verbatim>\<open>Fill(tensor)\<close> populates the tensor's values. A filler is
  taken as a parameter: a function that, given the tensor, gives the value it writes at
  each position of the data view (a random filler is one such function per run).
\<close>

type_synonym filler = "blob \<Rightarrow> nat \<Rightarrow> real"

definition Fill :: "filler \<Rightarrow> blob \<Rightarrow> blob" where
  "Fill f b = b\<lparr>data := map (f b) [0..<count b]\<rparr>"

subsection \<open>Dense linear algebra provider\<close>

text \<open>
  Modelled from the spec: the primitives of caffe/util/math_functions are not part of the
  source file. The spec lists them as
  \<^verbatim>\<open>GEMM(transA, transB, M, N, K, alpha, A, B, beta, C)\<close>,
  \<^verbatim>\<open>GEMV(trans, M, N, alpha, A, x, beta, y)\<close>, \<^verbatim>\<open>Scale(n, alpha, x, stride)\<close> and
  \<^verbatim>\<open>Norm2(n, x, stride)\<close>, the dense BLAS operations on row-major storage:
  GEMM sets the \<open>M \<times> N\<close> matrix \<open>C\<close> to \<open>alpha * op(A) * op(B) + beta * C\<close> where
  \<open>op(A)\<close> is \<open>M \<times> K\<close> and \<open>op(B)\<close> is \<open>K \<times> N\<close>; GEMV sets \<open>y\<close> to
  \<open>alpha * op(A) * x + beta * y\<close> for the \<open>M \<times> N\<close> matrix \<open>A\<close>; Scale multiplies
  \<open>n\<close> elements, \<open>stride\<close> apart, by \<open>alpha\<close>; Norm2 is the Euclidean norm of \<open>n\<close>
  elements, \<open>stride\<close> apart. With \<open>beta = 0\<close> the old contents of the result are not
  read. The accelerator variants have, by the spec, the same numerical results.
\<close>

datatype CBLAS_TRANSPOSE = CblasNoTrans | CblasTrans

definition caffe_cpu_gemm ::
  "CBLAS_TRANSPOSE \<Rightarrow> CBLAS_TRANSPOSE \<Rightarrow> nat \<Rightarrow> nat \<Rightarrow> nat \<Rightarrow> real \<Rightarrow>
     real list \<Rightarrow> real list \<Rightarrow> real \<Rightarrow> real list \<Rightarrow> real list" where
  "caffe_cpu_gemm TransA TransB M N K alpha A B beta C =
     (let lda = (if TransA = CblasNoTrans then K else M);
          ldb = (if TransB = CblasNoTrans then N else K);
          opA = (\<lambda>i k. if TransA = CblasNoTrans then A ! (i * lda + k) else A ! (k * lda + i));
          opB = (\<lambda>k j. if TransB = CblasNoTrans then B ! (k * ldb + j) else B ! (j * ldb + k))
      in map (\<lambda>p. alpha * (\<Sum>k\<leftarrow>[0..<K]. opA (p div N) k * opB k (p mod N))
                    + (if beta = 0 then 0 else beta * C ! p)) [0..<M * N]
         @ drop (M * N) C)"

definition caffe_cpu_gemv ::
  "CBLAS_TRANSPOSE \<Rightarrow> nat \<Rightarrow> nat \<Rightarrow> real \<Rightarrow> real list \<Rightarrow> real list \<Rightarrow> real \<Rightarrow>
     real list \<Rightarrow> real list" where
  "caffe_cpu_gemv TransA M N alpha A x beta y =
     (let rows = (if TransA = CblasNoTrans then M else N);
          cols = (if TransA = CblasNoTrans then N else M);
          opA = (\<lambda>r c. if TransA = CblasNoTrans then A ! (r * N + c) else A ! (c * N + r))
      in map (\<lambda>r. alpha * (\<Sum>c\<leftarrow>[0..<cols]. opA r c * x ! c)
                    + (if beta = 0 then 0 else beta * y ! r)) [0..<rows]
         @ drop rows y)"

definition caffe_cpu_norm2 :: "nat \<Rightarrow> real list \<Rightarrow> nat \<Rightarrow> nat \<Rightarrow> real" where
  "caffe_cpu_norm2 n buf x incx = sqrt (\<Sum>j\<leftarrow>[0..<n]. (buf ! (x + j * incx))\<^sup>2)"

definition caffe_scal :: "nat \<Rightarrow> real \<Rightarrow> real list \<Rightarrow> nat \<Rightarrow> nat \<Rightarrow> real list" where
  "caffe_scal n alpha buf x incx =
     fold (\<lambda>j b. b[x + j * incx := alpha * b ! (x + j * incx)]) [0..<n] buf"

definition caffe_gpu_norm2 :: "nat \<Rightarrow> real list \<Rightarrow> nat \<Rightarrow> nat \<Rightarrow> real" where
  "caffe_gpu_norm2 n buf x incx = sqrt (\<Sum>j\<leftarrow>[0..<n]. (buf ! (x + j * incx))\<^sup>2)"

definition caffe_gpu_scal :: "nat \<Rightarrow> real \<Rightarrow> real list \<Rightarrow> nat \<Rightarrow> nat \<Rightarrow> real list" where
  "caffe_gpu_scal n alpha buf x incx =
     fold (\<lambda>j b. b[x + j * incx := alpha * b ! (x + j * incx)]) [0..<n] buf"

subsection \<open>Execution mode and errors\<close>

text \<open>
  Modelled from the spec: \<^verbatim>\<open>Caffe::mode()\<close> (caffe/common.hpp) is not part of the source
  file. The spec names the CPU mode, the accelerator mode and an unrecognized mode; the
  third constructor stands for every selector value that is neither of the two. The global
  selector is passed to the operations that read it.
\<close>

datatype Brew = CPU | GPU | Unrecognized

text \<open>
  \<open>Fatal\<close> is \<^verbatim>\<open>LOG(FATAL)\<close>, which ends the process. The other two are runs that C++
  leaves undefined and that stop the model: the integer division by a zero batch size in
  \<^verbatim>\<open>SetUp\<close>, and the use of a parameter tensor or of the bias multiplier that the layer
  does not hold.
\<close>

datatype error = Fatal string | Division_by_zero | Null_dereference

subsection \<open>The layer\<close>

text \<open>
  The first four fields are what the source reads from \<^verbatim>\<open>layer_param_\<close>; \<open>blobs\<close> is the
  Parameter Store \<^verbatim>\<open>blobs_\<close>; \<open>M_dim\<close>, \<open>K_dim\<close>, \<open>N_dim\<close> are the members
  \<^verbatim>\<open>M_\<close>, \<^verbatim>\<open>K_\<close>, \<^verbatim>\<open>N_\<close>; \<open>bias_multiplier\<close> is \<open>None\<close> while the shared pointer is
  unset.
\<close>

record layer =
  num_output :: nat
  bias_term_param :: bool
  weight_filler :: filler
  bias_filler :: filler
  blobs :: "blob list"
  bias_term :: bool
  M_dim :: nat
  K_dim :: nat
  N_dim :: nat
  bias_multiplier :: "real list option"

section \<open>The operations\<close>

subsection \<open>SetUp\<close>

text \<open>
  \<^verbatim>\<open>bottom\<close> and \<^verbatim>\<open>top\<close> are the single tensors \<^verbatim>\<open>bottom[0]\<close> and \<^verbatim>\<open>(*top)[0]\<close>.
  The base class's \<^verbatim>\<open>SetUp\<close> and the informational log line change nothing that the
  layer holds and are left out. The loop that fills the bias multiplier is the fold over
  \<open>i = 0, ..., M - 1\<close>.
\<close>

definition SetUp :: "layer \<Rightarrow> blob \<Rightarrow> blob \<Rightarrow> error + (layer \<times> blob)" where
  "SetUp L bottom top_blob =
     (if num bottom = 0 then Inl Division_by_zero
      else
        let L1 = L\<lparr>bias_term := bias_term_param L,
                   M_dim := num bottom,
                   K_dim := count bottom div num bottom,
                   N_dim := num_output L\<rparr>;
            top' = Reshape (num bottom) (num_output L) 1 1 top_blob;
            L2 = (if length (blobs L1) > 0 then L1
                  else
                    let W = Fill (weight_filler L1) (new_Blob 1 1 (N_dim L1) (K_dim L1))
                    in if bias_term L1
                       then L1\<lparr>blobs := [W, Fill (bias_filler L1) (new_Blob 1 1 1 (N_dim L1))]\<rparr>
                       else L1\<lparr>blobs := [W]\<rparr>);
            L3 = (if bias_term L2
                  then L2\<lparr>bias_multiplier :=
                         Some (fold (\<lambda>i b. b[i := 1]) [0..<M_dim L2] (replicate (M_dim L2) 0))\<rparr>
                  else L2)
        in Inr (L3, top'))"

subsection \<open>Forward\<close>

text \<open>The result is the written output tensor and the scalar that the function returns.\<close>

definition Forward_cpu :: "layer \<Rightarrow> blob \<Rightarrow> blob \<Rightarrow> error + (blob \<times> real)" where
  "Forward_cpu L bottom top_blob =
     (case blobs L of
        [] \<Rightarrow> Inl Null_dereference
      | W # rest \<Rightarrow>
          let top_data = caffe_cpu_gemm CblasNoTrans CblasTrans (M_dim L) (N_dim L) (K_dim L) 1
                           (data bottom) (data W) 0 (data top_blob)
          in if bias_term L
             then (case (bias_multiplier L, rest) of
                     (Some bm, B # _) \<Rightarrow>
                       Inr (top_blob\<lparr>data := caffe_cpu_gemm CblasNoTrans CblasNoTrans
                                           (M_dim L) (N_dim L) 1 1 bm (data B) 1 top_data\<rparr>, 0)
                   | _ \<Rightarrow> Inl Null_dereference)
             else Inr (top_blob\<lparr>data := top_data\<rparr>, 0))"

subsection \<open>Backward\<close>

text \<open>
  \<^verbatim>\<open>top\<close> is read only. The result is the layer (whose parameter tensors hold the weight
  and bias gradients) and the input tensor.
\<close>

definition Backward_cpu :: "layer \<Rightarrow> blob \<Rightarrow> bool \<Rightarrow> blob \<Rightarrow> error + (layer \<times> blob)" where
  "Backward_cpu L top_blob propagate_down bottom =
     (case blobs L of
        [] \<Rightarrow> Inl Null_dereference
      | W # rest \<Rightarrow>
          let W' = W\<lparr>diff := caffe_cpu_gemm CblasTrans CblasNoTrans (N_dim L) (K_dim L) (M_dim L) 1
                                 (diff top_blob) (data bottom) 0 (diff W)\<rparr>;
              bottom' = (if propagate_down
                         then bottom\<lparr>diff := caffe_cpu_gemm CblasNoTrans CblasNoTrans
                                                  (M_dim L) (K_dim L) (N_dim L) 1
                                                  (diff top_blob) (data W') 0 (diff bottom)\<rparr>
                         else bottom)
          in if bias_term L
             then (case (bias_multiplier L, rest) of
                     (Some bm, B # rest') \<Rightarrow>
                       Inr (L\<lparr>blobs := W' # B\<lparr>diff := caffe_cpu_gemv CblasTrans (M_dim L) (N_dim L) 1
                                                            (diff top_blob) bm 0 (diff B)\<rparr> # rest'\<rparr>,
                            bottom')
                   | _ \<Rightarrow> Inl Null_dereference)
             else Inr (L\<lparr>blobs := W' # rest\<rparr>, bottom'))"

subsection \<open>Normalizing the weights\<close>

text \<open>
  Both overloads compute the factor \<^verbatim>\<open>t / (nrm + Dtype(1e-7))\<close> in \<^verbatim>\<open>Dtype\<close>, the template
  parameter of the class. Its addition and its division round, and the literal is converted
  to \<^verbatim>\<open>Dtype\<close>; the three are taken as a parameter, one value of the record for float, one
  for double. The comparisons of the source are exact.
\<close>

record Dtype_arith =
  Dtype_add :: "real \<Rightarrow> real \<Rightarrow> real"
  Dtype_div :: "real \<Rightarrow> real \<Rightarrow> real"
  Dtype_1e_7 :: real

text \<open>The number \<open>1e-7\<close>, and the arithmetic that does not round, used in the examples.\<close>

definition eps :: real where
  "eps = 1 / 10 ^ 7"

definition exact_arith :: Dtype_arith where
  "exact_arith = \<lparr>Dtype_add = (+), Dtype_div = (/), Dtype_1e_7 = eps\<rparr>"

text \<open>
  The four loops of the source. The first argument counts the iterations that remain
  (\<open>N - i\<close>); \<open>weight\<close> is the moving pointer, as a position in the buffer.
\<close>

fun max_norm_cpu ::
  "Dtype_arith \<Rightarrow> nat \<Rightarrow> nat \<Rightarrow> nat \<Rightarrow> nat \<Rightarrow> real \<Rightarrow> nat \<Rightarrow> real list \<Rightarrow> real list" where
  "max_norm_cpu ar 0 M N off mnorm weight buf = buf"
| "max_norm_cpu ar (Suc n) M N off mnorm weight buf =
     (let nrm = caffe_cpu_norm2 M buf weight N
      in max_norm_cpu ar n M N off mnorm (weight + off)
           (if nrm > mnorm
            then caffe_scal M (Dtype_div ar mnorm (Dtype_add ar nrm (Dtype_1e_7 ar))) buf weight N
            else buf))"

fun max_norm_gpu ::
  "Dtype_arith \<Rightarrow> nat \<Rightarrow> nat \<Rightarrow> nat \<Rightarrow> nat \<Rightarrow> real \<Rightarrow> nat \<Rightarrow> real list \<Rightarrow> real list" where
  "max_norm_gpu ar 0 M N off mnorm weight buf = buf"
| "max_norm_gpu ar (Suc n) M N off mnorm weight buf =
     (let nrm = caffe_gpu_norm2 M buf weight N
      in max_norm_gpu ar n M N off mnorm (weight + off)
           (if nrm > mnorm
            then caffe_gpu_scal M (Dtype_div ar mnorm (Dtype_add ar nrm (Dtype_1e_7 ar))) buf weight N
            else buf))"

fun norm_band_cpu ::
  "Dtype_arith \<Rightarrow> nat \<Rightarrow> nat \<Rightarrow> nat \<Rightarrow> nat \<Rightarrow> real \<Rightarrow> real \<Rightarrow> real \<Rightarrow> nat \<Rightarrow> real list \<Rightarrow>
     real list" where
  "norm_band_cpu ar 0 M N off min_norm max_norm target_norm weight buf = buf"
| "norm_band_cpu ar (Suc n) M N off min_norm max_norm target_norm weight buf =
     (let nrm = caffe_cpu_norm2 M buf weight N
      in norm_band_cpu ar n M N off min_norm max_norm target_norm (weight + off)
           (if nrm > max_norm \<or> nrm < min_norm
            then caffe_scal M (Dtype_div ar target_norm (Dtype_add ar nrm (Dtype_1e_7 ar)))
                   buf weight N
            else buf))"

fun norm_band_gpu ::
  "Dtype_arith \<Rightarrow> nat \<Rightarrow> nat \<Rightarrow> nat \<Rightarrow> nat \<Rightarrow> real \<Rightarrow> real \<Rightarrow> real \<Rightarrow> nat \<Rightarrow> real list \<Rightarrow>
     real list" where
  "norm_band_gpu ar 0 M N off min_norm max_norm target_norm weight buf = buf"
| "norm_band_gpu ar (Suc n) M N off min_norm max_norm target_norm weight buf =
     (let nrm = caffe_gpu_norm2 M buf weight N
      in norm_band_gpu ar n M N off min_norm max_norm target_norm (weight + off)
           (if nrm > max_norm \<or> nrm < min_norm
            then caffe_gpu_scal M (Dtype_div ar target_norm (Dtype_add ar nrm (Dtype_1e_7 ar)))
                   buf weight N
            else buf))"

text \<open>
  The two overloads of \<^verbatim>\<open>normalize_weights\<close>. The locals \<open>M\<close>, \<open>N\<close> and \<open>off\<close> are
  read from the weight tensor before the mode is looked at.
\<close>

definition normalize_weights :: "Dtype_arith \<Rightarrow> Brew \<Rightarrow> real \<Rightarrow> layer \<Rightarrow> error + layer" where
  "normalize_weights ar mode mnorm L =
     (case blobs L of
        [] \<Rightarrow> Inl Null_dereference
      | W # rest \<Rightarrow>
          let M = height W; N = width W; off = offset W 0 0 0 1
          in (case mode of
                CPU \<Rightarrow> Inr (L\<lparr>blobs := W\<lparr>data := max_norm_cpu ar N M N off mnorm 0 (data W)\<rparr>
                                        # rest\<rparr>)
              | GPU \<Rightarrow> Inr (L\<lparr>blobs := W\<lparr>data := max_norm_gpu ar N M N off mnorm 0 (data W)\<rparr>
                                        # rest\<rparr>)
              | Unrecognized \<Rightarrow> Inl (Fatal ''Unknown caffe mode.'')))"

definition normalize_weights3 ::
  "Dtype_arith \<Rightarrow> Brew \<Rightarrow> real \<Rightarrow> real \<Rightarrow> real \<Rightarrow> layer \<Rightarrow> error + layer" where
  "normalize_weights3 ar mode min_norm max_norm target_norm L =
     (case blobs L of
        [] \<Rightarrow> Inl Null_dereference
      | W # rest \<Rightarrow>
          let M = height W; N = width W; off = offset W 0 0 0 1
          in (case mode of
                CPU \<Rightarrow> Inr (L\<lparr>blobs := W\<lparr>data := norm_band_cpu ar N M N off min_norm max_norm
                                                     target_norm 0 (data W)\<rparr> # rest\<rparr>)
              | GPU \<Rightarrow> Inr (L\<lparr>blobs := W\<lparr>data := norm_band_gpu ar N M N off min_norm max_norm
                                                     target_norm 0 (data W)\<rparr> # rest\<rparr>)
              | Unrecognized \<Rightarrow> Inl (Fatal ''Unknown caffe mode.'')))"

section \<open>Vocabulary of the specification\<close>

text \<open>
  A layer is set up with dimensions \<open>M\<close>, \<open>K\<close>, \<open>N\<close> when its buffers have the sizes
  that \<^verbatim>\<open>SetUp\<close> gives them: input \<open>M \<times> K\<close>, output \<open>M \<times> N\<close>, weight \<open>N \<times> K\<close>, and,
  with a bias term, bias \<open>N\<close> and bias multiplier \<open>M\<close>.
\<close>

definition shapes_ok :: "layer \<Rightarrow> blob \<Rightarrow> blob \<Rightarrow> bool" where
  "shapes_ok L bottom top_blob \<longleftrightarrow>
     length (data bottom) = M_dim L * K_dim L \<and> length (diff bottom) = M_dim L * K_dim L \<and>
     length (data top_blob) = M_dim L * N_dim L \<and> length (diff top_blob) = M_dim L * N_dim L \<and>
     (case blobs L of
        [] \<Rightarrow> False
      | W # rest \<Rightarrow>
          length (data W) = N_dim L * K_dim L \<and> length (diff W) = N_dim L * K_dim L \<and>
          (bias_term L \<longrightarrow>
             (case (bias_multiplier L, rest) of
                (Some bm, B # _) \<Rightarrow>
                  length bm = M_dim L \<and> length (data B) = N_dim L \<and> length (diff B) = N_dim L
              | _ \<Rightarrow> False)))"

text \<open>
  The group of \<open>E\<close> elements of a buffer that starts at \<open>start\<close> and whose elements are
  \<open>S\<close> apart, and the Euclidean norm of a list of numbers.
\<close>

definition column :: "real list \<Rightarrow> nat \<Rightarrow> nat \<Rightarrow> nat \<Rightarrow> real list" where
  "column buf start E S = map (\<lambda>j. buf ! (start + j * S)) [0..<E]"

definition l2_norm :: "real list \<Rightarrow> real" where
  "l2_norm xs = sqrt (\<Sum>x\<leftarrow>xs. x\<^sup>2)"

text \<open>
  The weight column of output unit \<open>i\<close> in the spec's words: one of \<open>N\<close> columns, \<open>N\<close>
  the number of output units, each of \<open>K\<close> elements, \<open>K\<close> the input feature count; its
  elements are at \<open>base + i * off\<close>, spaced \<open>N\<close> apart. (With one output unit the column
  is the whole weight vector of that unit.)
\<close>

definition spec_weight_column :: "layer \<Rightarrow> nat \<Rightarrow> real list" where
  "spec_weight_column L i =
     (case blobs L of
        [] \<Rightarrow> []
      | W # rest \<Rightarrow> column (data W) (i * offset W 0 0 0 1) (K_dim L) (N_dim L))"

text \<open>
  The column addressing in the spec's words: the operation walks \<open>G\<close> groups with a fixed
  stride \<open>off\<close> between group starts, group \<open>i\<close> beginning at \<open>base + i * off\<close>, and the
  norm and the rescaling of a group operate on \<open>E\<close> elements spaced \<open>S\<close> apart. A group
  whose norm is \<open>outside\<close> the bound is rescaled by \<open>t / (norm + 1e-7)\<close>, computed in
  \<^verbatim>\<open>Dtype\<close>.
\<close>

definition rescale_group ::
  "Dtype_arith \<Rightarrow> (real \<Rightarrow> bool) \<Rightarrow> real \<Rightarrow> nat \<Rightarrow> nat \<Rightarrow> nat \<Rightarrow> real list \<Rightarrow> real list" where
  "rescale_group ar outside t E S start buf =
     (let nrm = caffe_cpu_norm2 E buf start S
      in if outside nrm
         then caffe_scal E (Dtype_div ar t (Dtype_add ar nrm (Dtype_1e_7 ar))) buf start S
         else buf)"

definition walk_groups ::
  "Dtype_arith \<Rightarrow> (real \<Rightarrow> bool) \<Rightarrow> real \<Rightarrow> nat \<Rightarrow> nat \<Rightarrow> nat \<Rightarrow> nat \<Rightarrow> real list \<Rightarrow> real list" where
  "walk_groups ar outside t G off E S buf =
     fold (\<lambda>i. rescale_group ar outside t E S (i * off)) [0..<G] buf"

section \<open>The groups that the loops address\<close>

text \<open>
  Group \<open>i\<close> of the weight buffer as the loops of \<^verbatim>\<open>normalize_weights\<close> address it: the
  \<^verbatim>\<open>M\<close> elements that \<^verbatim>\<open>norm2(M, weight, N)\<close> and \<^verbatim>\<open>scal(M, _, weight, N)\<close> touch in
  iteration \<open>i\<close>, where \<^verbatim>\<open>M\<close> is the height and \<^verbatim>\<open>N\<close> the width of the weight tensor and
  \<^verbatim>\<open>weight\<close> has been advanced \<open>i\<close> times by \<^verbatim>\<open>off\<close>.
\<close>

definition walked_group :: "layer \<Rightarrow> nat \<Rightarrow> real list" where
  "walked_group L i =
     (case blobs L of
        [] \<Rightarrow> []
      | W # rest \<Rightarrow> column (data W) (i * offset W 0 0 0 1) (height W) (width W))"

section \<open>Example inputs\<close>

text \<open>A layer before its first \<^verbatim>\<open>SetUp\<close>, with two output units and a bias term.\<close>

definition example_layer :: layer where
  "example_layer =
     \<lparr>num_output = 2, bias_term_param = True,
      weight_filler = (\<lambda>b i. real i + 1), bias_filler = (\<lambda>b i. 1 / 2),
      blobs = [], bias_term = False, M_dim = 0, K_dim = 0, N_dim = 0,
      bias_multiplier = None\<rparr>"

text \<open>A batch of two examples with three features each, and an output tensor not yet shaped.\<close>

definition example_bottom :: blob where
  "example_bottom =
     \<lparr>num = 2, channels = 3, height = 1, width = 1,
      data = [1, 2, 3, 4, 5, 6], diff = [0, 0, 0, 0, 0, 0]\<rparr>"

definition example_top :: blob where
  "example_top = \<lparr>num = 0, channels = 0, height = 0, width = 0, data = [], diff = []\<rparr>"

text \<open>The same layer in use: \<open>M = 2\<close>, \<open>K = 3\<close>, \<open>N = 2\<close>, with weights, bias and gradients.\<close>

definition example_weight :: blob where
  "example_weight =
     \<lparr>num = 1, channels = 1, height = 2, width = 3,
      data = [3, 0, 1, 4, 1, 0], diff = [7, 7, 7, 7, 7, 7]\<rparr>"

definition example_bias :: blob where
  "example_bias =
     \<lparr>num = 1, channels = 1, height = 1, width = 2, data = [1 / 2, - 1], diff = [7, 7]\<rparr>"

definition trained_layer :: layer where
  "trained_layer =
     \<lparr>num_output = 2, bias_term_param = True,
      weight_filler = (\<lambda>b i. real i + 1), bias_filler = (\<lambda>b i. 1 / 2),
      blobs = [example_weight, example_bias], bias_term = True,
      M_dim = 2, K_dim = 3, N_dim = 2, bias_multiplier = Some [1, 1]\<rparr>"

definition trained_top :: blob where
  "trained_top =
     \<lparr>num = 2, channels = 2, height = 1, width = 1,
      data = [9, 9, 9, 9], diff = [1, 0, 2, 1]\<rparr>"

text \<open>A layer with one output unit and one input feature, holding the weight \<open>w\<close>.\<close>

definition single_weight_layer :: "real \<Rightarrow> layer" where
  "single_weight_layer w =
     \<lparr>num_output = 1, bias_term_param = False,
      weight_filler = (\<lambda>b i. 0), bias_filler = (\<lambda>b i. 0),
      blobs = [\<lparr>num = 1, channels = 1, height = 1, width = 1, data = [w], diff = [0]\<rparr>],
      bias_term = False, M_dim = 1, K_dim = 1, N_dim = 1, bias_multiplier = None\<rparr>"

text \<open>A layer with one output unit and two input features, both weights equal to one.\<close>

definition one_unit_weight :: blob where
  "one_unit_weight =
     \<lparr>num = 1, channels = 1, height = 1, width = 2, data = [1, 1], diff = [0, 0]\<rparr>"

definition one_unit_layer :: layer where
  "one_unit_layer =
     \<lparr>num_output = 1, bias_term_param = False,
      weight_filler = (\<lambda>b i. 1), bias_filler = (\<lambda>b i. 0),
      blobs = [one_unit_weight],
      bias_term = False, M_dim = 1, K_dim = 2, N_dim = 1, bias_multiplier = None\<rparr>"

text \<open>The same layer with both weights replaced by \<open>13/10 / (1 + 1e-7)\<close>.\<close>

definition one_unit_rescaled :: layer where
  "one_unit_rescaled =
     one_unit_layer\<lparr>blobs := [one_unit_weight\<lparr>data := [13 / 10 / (1 + eps), 13 / 10 / (1 + eps)]\<rparr>]\<rparr>"

section \<open>SetUp and the Parameter Store\<close>

lemma fold_fill_prefix:
  "n \<le> length xs \<Longrightarrow> fold (\<lambda>i b. b[i := v]) [0..<n] xs = replicate n v @ drop n xs"
proof (induction n)
  case 0
  then show ?case by simp
next
  case (Suc n)
  then have "fold (\<lambda>i b. b[i := v]) [0..<Suc n] xs = (replicate n v @ drop n xs)[n := v]"
    by simp
  also have "\<dots> = replicate n v @ (drop n xs)[0 := v]"
    by (simp add: list_update_append)
  also have "(drop n xs)[0 := v] = v # drop (Suc n) xs"
    using Suc.prems by (cases "drop n xs") (auto simp: drop_Suc dest: arg_cong[where f=tl] simp: tl_drop)
  finally show ?case by (simp add: replicate_app_Cons_same)
qed

lemma fill_ones: "fold (\<lambda>i b. b[i := 1]) [0..<M] (replicate M (0::real)) = replicate M 1"
  using fold_fill_prefix [of M "replicate M 0" 1] by simp

lemma SetUp_returns:
  "0 < num bottom \<Longrightarrow> \<exists>L' top'. SetUp L bottom top_blob = Inr (L', top')"
  by (simp add: SetUp_def Let_def)

lemma Backward_cpu_store_size:
  "Backward_cpu L top_blob propagate_down bottom = Inr (L', bottom') \<Longrightarrow>
     length (blobs L') = length (blobs L)"
  by (auto simp: Backward_cpu_def Let_def split: list.splits if_splits option.splits)

lemma normalize_weights_store_size:
  "normalize_weights ar mode mnorm L = Inr L' \<Longrightarrow> length (blobs L') = length (blobs L)"
  by (auto simp: normalize_weights_def Let_def split: list.splits Brew.splits)

lemma normalize_weights3_store_size:
  "normalize_weights3 ar mode min_norm max_norm target_norm L = Inr L' \<Longrightarrow>
     length (blobs L') = length (blobs L)"
  by (auto simp: normalize_weights3_def Let_def split: list.splits Brew.splits)

text \<open>
  C7. A \<^verbatim>\<open>SetUp\<close> call on a layer whose Parameter Store is empty (and whose input has a
  non-empty batch) returns, and afterwards the store holds exactly one tensor, the weight of
  shape \<open>N \<times> K\<close>, when the bias term is off, and exactly two, the weight and the bias of
  shape \<open>1 \<times> N\<close>, when it is on, together with a bias multiplier of length \<open>M\<close> whose
  entries are all one. \<^verbatim>\<open>Backward\<close> and both \<^verbatim>\<open>normalize_weights\<close> keep the size of the
  store (\<^verbatim>\<open>Forward\<close> does not write to the layer at all).
\<close>

theorem SetUp_parameter_store:
  assumes "0 < num bottom" and "blobs L = []"
  shows "\<exists>L' top'. SetUp L bottom top_blob = Inr (L', top') \<and>
           N_dim L' = num_output L \<and> K_dim L' = count bottom div num bottom \<and>
           M_dim L' = num bottom \<and>
           length (blobs L') = (if bias_term_param L then 2 else 1) \<and>
           (let W = blobs L' ! 0 in
              num W = 1 \<and> channels W = 1 \<and> height W = N_dim L' \<and> width W = K_dim L' \<and>
              length (data W) = N_dim L' * K_dim L' \<and> length (diff W) = N_dim L' * K_dim L') \<and>
           (bias_term_param L \<longrightarrow>
              (let B = blobs L' ! 1 in
                 num B = 1 \<and> channels B = 1 \<and> height B = 1 \<and> width B = N_dim L' \<and>
                 length (data B) = N_dim L' \<and> length (diff B) = N_dim L') \<and>
              bias_multiplier L' = Some (replicate (M_dim L') 1)) \<and>
           (\<forall>t p b L2 b2. Backward_cpu L' t p b = Inr (L2, b2) \<longrightarrow>
              length (blobs L2) = length (blobs L')) \<and>
           (\<forall>ar mode mnorm L2. normalize_weights ar mode mnorm L' = Inr L2 \<longrightarrow>
              length (blobs L2) = length (blobs L')) \<and>
           (\<forall>ar mode mn mx tg L2. normalize_weights3 ar mode mn mx tg L' = Inr L2 \<longrightarrow>
              length (blobs L2) = length (blobs L'))"
proof -
  obtain L' top' where r: "SetUp L bottom top_blob = Inr (L', top')"
    using SetUp_returns [OF assms(1)] by blast
  have shape: "N_dim L' = num_output L \<and> K_dim L' = count bottom div num bottom \<and>
           M_dim L' = num bottom \<and>
           length (blobs L') = (if bias_term_param L then 2 else 1) \<and>
           (let W = blobs L' ! 0 in
              num W = 1 \<and> channels W = 1 \<and> height W = N_dim L' \<and> width W = K_dim L' \<and>
              length (data W) = N_dim L' * K_dim L' \<and> length (diff W) = N_dim L' * K_dim L') \<and>
           (bias_term_param L \<longrightarrow>
              (let B = blobs L' ! 1 in
                 num B = 1 \<and> channels B = 1 \<and> height B = 1 \<and> width B = N_dim L' \<and>
                 length (data B) = N_dim L' \<and> length (diff B) = N_dim L') \<and>
              bias_multiplier L' = Some (replicate (M_dim L') 1))"
    using assms r
    by (auto simp: SetUp_def Let_def Fill_def new_Blob_def Reshape_def count_def fill_ones)
  show ?thesis
    using r shape Backward_cpu_store_size normalize_weights_store_size
      normalize_weights3_store_size
    by blast
qed

theorem SetUp_parameter_store_witness:
  "0 < num example_bottom \<and> blobs example_layer = [] \<and>
   (\<exists>L' top'. SetUp example_layer example_bottom example_top = Inr (L', top') \<and>
      length (blobs L') = 2 \<and> bias_multiplier L' = Some [1, 1])"
proof -
  have h1: "0 < num example_bottom" by (simp add: example_bottom_def)
  have h2: "blobs example_layer = []" by (simp add: example_layer_def)
  have m: "replicate (num example_bottom) (1::real) = [1, 1]"
    by (simp add: example_bottom_def numeral_2_eq_2)
  from SetUp_parameter_store [OF h1 h2, of example_top]
  obtain L' top' where "SetUp example_layer example_bottom example_top = Inr (L', top')"
    and "length (blobs L') = 2" and "bias_multiplier L' = Some (replicate (M_dim L') 1)"
    and "M_dim L' = num example_bottom"
    by (auto simp: example_layer_def)
  then show ?thesis using h1 h2 m by auto
qed

text \<open>
  C8. A \<^verbatim>\<open>SetUp\<close> call on a layer whose Parameter Store is not empty returns with the
  store exactly as it was: the same tensors with the same contents, nothing allocated and
  no initializer applied.
\<close>

theorem SetUp_keeps_populated_store:
  assumes "0 < num bottom" and "blobs L \<noteq> []"
  shows "\<exists>L' top'. SetUp L bottom top_blob = Inr (L', top') \<and> blobs L' = blobs L"
  using assms by (simp add: SetUp_def Let_def)

theorem SetUp_keeps_populated_store_witness:
  "0 < num example_bottom \<and> blobs trained_layer \<noteq> [] \<and>
   (\<exists>L' top'. SetUp trained_layer example_bottom trained_top = Inr (L', top') \<and>
      blobs L' = [example_weight, example_bias])"
proof -
  have h1: "0 < num example_bottom" by (simp add: example_bottom_def)
  have h2: "blobs trained_layer \<noteq> []" by (simp add: trained_layer_def)
  show ?thesis
    using h1 h2 SetUp_keeps_populated_store [OF h1 h2, of trained_top]
    by (simp add: trained_layer_def)
qed

text \<open>
  C10. With the bias term configured, every \<^verbatim>\<open>SetUp\<close> call that returns leaves a bias
  multiplier of length \<open>M\<close> (the batch size of the input) with all entries one, whether the
  Parameter Store was empty or already populated.
\<close>

theorem SetUp_bias_multiplier_every_call:
  assumes "0 < num bottom" and "bias_term_param L"
  shows "\<exists>L' top'. SetUp L bottom top_blob = Inr (L', top') \<and>
           M_dim L' = num bottom \<and>
           bias_multiplier L' = Some (replicate (num bottom) 1)"
  using assms by (simp add: SetUp_def Let_def fill_ones)

theorem SetUp_bias_multiplier_every_call_witness:
  "0 < num example_bottom \<and> bias_term_param trained_layer \<and> blobs trained_layer \<noteq> [] \<and>
   (\<exists>L' top'. SetUp trained_layer example_bottom trained_top = Inr (L', top') \<and>
      bias_multiplier L' = Some [1, 1])"
proof -
  have h1: "0 < num example_bottom" by (simp add: example_bottom_def)
  have h2: "bias_term_param trained_layer" by (simp add: trained_layer_def)
  have h3: "blobs trained_layer \<noteq> []" by (simp add: trained_layer_def)
  have m: "replicate (num example_bottom) (1::real) = [1, 1]"
    by (simp add: example_bottom_def numeral_2_eq_2)
  show ?thesis
    using h1 h2 h3 m SetUp_bias_multiplier_every_call [OF h1 h2, of trained_top]
    by auto
qed

section \<open>The execution mode\<close>

text \<open>
  C9. On a layer that holds its weight tensor, each of the two \<^verbatim>\<open>normalize_weights\<close>
  ends in the fatal error (no layer is returned) exactly when the execution mode is neither
  CPU nor GPU; in CPU and in GPU mode it returns a layer.
\<close>

theorem normalize_weights_fatal_iff_unknown_mode:
  assumes "blobs L \<noteq> []"
  shows "(normalize_weights ar mode mnorm L = Inl (Fatal ''Unknown caffe mode.'')
            \<longleftrightarrow> mode \<noteq> CPU \<and> mode \<noteq> GPU) \<and>
         (normalize_weights3 ar mode min_norm max_norm target_norm L
            = Inl (Fatal ''Unknown caffe mode.'') \<longleftrightarrow> mode \<noteq> CPU \<and> mode \<noteq> GPU) \<and>
         (mode = CPU \<or> mode = GPU \<longrightarrow>
            (\<exists>L'. normalize_weights ar mode mnorm L = Inr L') \<and>
            (\<exists>L'. normalize_weights3 ar mode min_norm max_norm target_norm L = Inr L'))"
  using assms
  by (cases mode; cases "blobs L")
     (simp_all add: normalize_weights_def normalize_weights3_def Let_def)

theorem normalize_weights_fatal_iff_unknown_mode_witness:
  "blobs trained_layer \<noteq> [] \<and>
   normalize_weights exact_arith Unrecognized 1 trained_layer = Inl (Fatal ''Unknown caffe mode.'') \<and>
   normalize_weights3 exact_arith Unrecognized 1 2 1 trained_layer = Inl (Fatal ''Unknown caffe mode.'') \<and>
   (\<exists>L'. normalize_weights exact_arith GPU 1 trained_layer = Inr L') \<and>
   (\<exists>L'. normalize_weights3 exact_arith CPU 1 2 1 trained_layer = Inr L')"
proof -
  have h: "blobs trained_layer \<noteq> []" by (simp add: trained_layer_def)
  show ?thesis
    using h normalize_weights_fatal_iff_unknown_mode [OF h, of exact_arith Unrecognized 1 1 2 1]
      normalize_weights_fatal_iff_unknown_mode [OF h, of exact_arith GPU 1 1 2 1]
      normalize_weights_fatal_iff_unknown_mode [OF h, of exact_arith CPU 1 1 2 1]
    by simp
qed

section \<open>Forward and Backward\<close>

lemma sum_list_upt_eq_sum: "(\<Sum>k\<leftarrow>[0..<n]. f k) = (\<Sum>k<n. f k)"
  by (simp add: interv_sum_list_conv_sum_set_nat lessThan_atLeast0)

lemma flat_index_less: "i < M \<Longrightarrow> j < N \<Longrightarrow> i * N + j < M * (N::nat)"
proof -
  assume a: "i < M" "j < N"
  then have "i * N + j < i * N + N" by simp
  also have "\<dots> = Suc i * N" by simp
  also have "\<dots> \<le> M * N" using a(1) by (intro mult_le_mono1) simp
  finally show ?thesis .
qed

lemma length_caffe_cpu_gemm:
  "length C = M * N \<Longrightarrow> length (caffe_cpu_gemm TA TB M N K alpha A B beta C) = M * N"
  by (simp add: caffe_cpu_gemm_def Let_def)

lemma caffe_cpu_gemm_nth:
  assumes "i < M" and "j < N"
  shows "caffe_cpu_gemm TA TB M N K alpha A B beta C ! (i * N + j) =
           alpha * (\<Sum>k<K. (if TA = CblasNoTrans then A ! (i * K + k) else A ! (k * M + i)) *
                            (if TB = CblasNoTrans then B ! (k * N + j) else B ! (j * K + k)))
           + (if beta = 0 then 0 else beta * C ! (i * N + j))"
proof -
  have lt: "i * N + j < M * N" using assms by (rule flat_index_less)
  have dm: "(i * N + j) div N = i" "(i * N + j) mod N = j" using assms(2) by simp_all
  show ?thesis
    using lt dm
    by (simp add: caffe_cpu_gemm_def Let_def nth_append sum_list_upt_eq_sum del: upt.simps)
qed

lemma length_caffe_cpu_gemv:
  "length y = N \<Longrightarrow> length (caffe_cpu_gemv CblasTrans M N alpha A x beta y) = N"
  by (simp add: caffe_cpu_gemv_def Let_def)

lemma caffe_cpu_gemv_trans_nth:
  assumes "j < N"
  shows "caffe_cpu_gemv CblasTrans M N alpha A x beta y ! j =
           alpha * (\<Sum>i<M. A ! (i * N + j) * x ! i) + (if beta = 0 then 0 else beta * y ! j)"
  using assms
  by (simp add: caffe_cpu_gemv_def Let_def nth_append sum_list_upt_eq_sum del: upt.simps)


text \<open>
  \<^verbatim>\<open>SetUp\<close> on an empty Parameter Store, with an input whose two views hold \<^verbatim>\<open>count\<close>
  elements, gives a layer that is set up in the sense of \<open>shapes_ok\<close>.
\<close>

lemma SetUp_shapes_ok:
  assumes "SetUp L bottom top_blob = Inr (L', top')" and "blobs L = []"
    and "length (data bottom) = count bottom" and "length (diff bottom) = count bottom"
  shows "shapes_ok L' bottom top'"
proof -
  have n: "0 < num bottom" using assms(1) by (auto simp: SetUp_def split: if_splits)
  have "count bottom = num bottom * (channels bottom * height bottom * width bottom)"
    by (simp add: count_def mult.assoc)
  then have k: "num bottom * (count bottom div num bottom) = count bottom"
    using n by simp
  show ?thesis
    using assms n k
    by (auto simp: SetUp_def Let_def shapes_ok_def Fill_def new_Blob_def Reshape_def fill_ones
        count_def)
qed

lemma shapes_okE:
  assumes "shapes_ok L bottom top_blob"
  obtains W rest where "blobs L = W # rest"
    and "length (data W) = N_dim L * K_dim L" and "length (diff W) = N_dim L * K_dim L"
    and "length (data bottom) = M_dim L * K_dim L" and "length (diff bottom) = M_dim L * K_dim L"
    and "length (data top_blob) = M_dim L * N_dim L" and "length (diff top_blob) = M_dim L * N_dim L"
  using assms by (auto simp: shapes_ok_def split: list.splits)

lemma shapes_ok_biasE:
  assumes "shapes_ok L bottom top_blob" and "bias_term L"
  obtains W B rest bm where "blobs L = W # B # rest" and "bias_multiplier L = Some bm"
    and "length bm = M_dim L" and "length (data B) = N_dim L" and "length (diff B) = N_dim L"
proof (cases "blobs L")
  case Nil
  with assms show ?thesis by (simp add: shapes_ok_def)
next
  case (Cons W rest)
  show ?thesis
  proof (cases rest)
    case Nil
    with assms Cons show ?thesis
      by (simp add: shapes_ok_def split: option.splits)
  next
    case (Cons B rest')
    with assms \<open>blobs L = W # rest\<close> that show ?thesis
      by (cases "bias_multiplier L") (simp_all add: shapes_ok_def)
  qed
qed

text \<open>
  C1. For a layer set up with dimensions \<open>M\<close>, \<open>K\<close>, \<open>N\<close>, \<^verbatim>\<open>Forward\<close> returns the
  scalar zero and writes only the data view of the output tensor: entry \<open>(i, j)\<close> of the
  \<open>M \<times> N\<close> output is the sum over \<open>k < K\<close> of input \<open>(i, k)\<close> times weight \<open>(j, k)\<close>
  (the weight is stored \<open>N \<times> K\<close>, so this is input times the transposed weight), plus,
  when the bias term is on, bias multiplier \<open>i\<close> times bias \<open>j\<close>, added to that product.
  The old contents of the output do not enter the result.
\<close>

theorem Forward_cpu_output:
  assumes "shapes_ok L bottom top_blob"
  shows "\<exists>top'. Forward_cpu L bottom top_blob = Inr (top', 0) \<and>
           top' = top_blob\<lparr>data := data top'\<rparr> \<and>
           length (data top') = M_dim L * N_dim L \<and>
           (\<forall>i<M_dim L. \<forall>j<N_dim L.
              data top' ! (i * N_dim L + j) =
                (\<Sum>k<K_dim L. data bottom ! (i * K_dim L + k) * data (blobs L ! 0) ! (j * K_dim L + k))
                + (if bias_term L
                   then the (bias_multiplier L) ! i * data (blobs L ! 1) ! j else 0))"
proof (cases "bias_term L")
  case False
  from assms obtain W rest where b: "blobs L = W # rest"
    and lt: "length (data top_blob) = M_dim L * N_dim L"
    by (rule shapes_okE)
  show ?thesis
    using False b lt
    by (simp add: Forward_cpu_def Let_def length_caffe_cpu_gemm caffe_cpu_gemm_nth)
next
  case True
  from assms obtain W rest0 where "blobs L = W # rest0"
    and lt: "length (data top_blob) = M_dim L * N_dim L"
    by (rule shapes_okE)
  from assms True obtain W B rest bm where b: "blobs L = W # B # rest"
    and bm: "bias_multiplier L = Some bm"
    by (rule shapes_ok_biasE)
  show ?thesis
    using True b bm lt
    by (simp add: Forward_cpu_def Let_def length_caffe_cpu_gemm caffe_cpu_gemm_nth)
qed


theorem Forward_cpu_output_witness:
  "shapes_ok trained_layer example_bottom trained_top \<and>
   (\<exists>top'. Forward_cpu trained_layer example_bottom trained_top = Inr (top', 0) \<and>
      length (data top') = 4 \<and> data top' ! 0 = 13 / 2 \<and> data top' ! 3 = 20)"
proof -
  have h: "shapes_ok trained_layer example_bottom trained_top"
    by (simp add: shapes_ok_def trained_layer_def example_bottom_def trained_top_def
        example_weight_def example_bias_def)
  from Forward_cpu_output [OF h] obtain top' where
    r: "Forward_cpu trained_layer example_bottom trained_top = Inr (top', 0)"
    and l: "length (data top') = M_dim trained_layer * N_dim trained_layer"
    and e: "\<forall>i<M_dim trained_layer. \<forall>j<N_dim trained_layer.
              data top' ! (i * N_dim trained_layer + j) =
                (\<Sum>k<K_dim trained_layer. data example_bottom ! (i * K_dim trained_layer + k) *
                    data (blobs trained_layer ! 0) ! (j * K_dim trained_layer + k))
                + (if bias_term trained_layer
                   then the (bias_multiplier trained_layer) ! i * data (blobs trained_layer ! 1) ! j
                   else 0)"
    by blast
  have "data top' ! (0 * N_dim trained_layer + 0) = 13 / 2"
    using e [rule_format, of 0 0]
    by (simp add: trained_layer_def example_bottom_def example_weight_def example_bias_def
        eval_nat_numeral)
  moreover have "data top' ! (1 * N_dim trained_layer + 1) = 20"
    using e [rule_format, of 1 1]
    by (simp add: trained_layer_def example_bottom_def example_weight_def example_bias_def
        eval_nat_numeral)
  ultimately show ?thesis
    using h r l by (auto simp: trained_layer_def)
qed

lemma Backward_cpu_result:
  assumes "blobs L = W # rest"
    and "bias_term L \<Longrightarrow> \<exists>B rest' bm. rest = B # rest' \<and> bias_multiplier L = Some bm"
  shows "Backward_cpu L top_blob propagate_down bottom =
           Inr (L\<lparr>blobs :=
                    W\<lparr>diff := caffe_cpu_gemm CblasTrans CblasNoTrans (N_dim L) (K_dim L) (M_dim L) 1
                                (diff top_blob) (data bottom) 0 (diff W)\<rparr>
                    # (if bias_term L
                       then (hd rest)\<lparr>diff := caffe_cpu_gemv CblasTrans (M_dim L) (N_dim L) 1
                                (diff top_blob) (the (bias_multiplier L)) 0 (diff (hd rest))\<rparr>
                            # tl rest
                       else rest)\<rparr>,
                if propagate_down
                then bottom\<lparr>diff := caffe_cpu_gemm CblasNoTrans CblasNoTrans
                                        (M_dim L) (K_dim L) (N_dim L) 1
                                        (diff top_blob) (data W) 0 (diff bottom)\<rparr>
                else bottom)"
  using assms by (auto simp: Backward_cpu_def Let_def)

text \<open>
  C2. For a layer set up with dimensions \<open>M\<close>, \<open>K\<close>, \<open>N\<close> and either value of
  \<^verbatim>\<open>propagate_down\<close>, \<^verbatim>\<open>Backward\<close> leaves in the weight gradient buffer the \<open>N \<times> K\<close>
  product of the transposed top gradient and the input (entry \<open>(j, k)\<close> is the sum over
  \<open>i < M\<close> of top gradient \<open>(i, j)\<close> times input \<open>(i, k)\<close>), and, when the bias term is on,
  in the bias gradient buffer the product of the transposed top gradient and the bias
  multiplier. The old contents of the two buffers do not enter the result.
\<close>

theorem Backward_cpu_parameter_gradients:
  assumes "shapes_ok L bottom top_blob"
  shows "\<exists>L' bottom'. Backward_cpu L top_blob propagate_down bottom = Inr (L', bottom') \<and>
           length (diff (blobs L' ! 0)) = N_dim L * K_dim L \<and>
           (\<forall>j<N_dim L. \<forall>k<K_dim L.
              diff (blobs L' ! 0) ! (j * K_dim L + k) =
                (\<Sum>i<M_dim L. diff top_blob ! (i * N_dim L + j) * data bottom ! (i * K_dim L + k))) \<and>
           (bias_term L \<longrightarrow>
              length (diff (blobs L' ! 1)) = N_dim L \<and>
              (\<forall>j<N_dim L.
                 diff (blobs L' ! 1) ! j =
                   (\<Sum>i<M_dim L. diff top_blob ! (i * N_dim L + j) * the (bias_multiplier L) ! i)))"
proof -
  from assms obtain W rest where b: "blobs L = W # rest"
    and lw: "length (diff W) = N_dim L * K_dim L"
    by (rule shapes_okE)
  have bias: "\<exists>B rest' bm. rest = B # rest' \<and> bias_multiplier L = Some bm \<and>
                 length (diff B) = N_dim L" if "bias_term L"
    using shapes_ok_biasE [OF assms that] b by (metis list.inject)
  have r: "bias_term L \<Longrightarrow> \<exists>B rest' bm. rest = B # rest' \<and> bias_multiplier L = Some bm"
    using bias by blast
  note res = Backward_cpu_result [OF b r, of top_blob propagate_down bottom]
  show ?thesis
    apply (rule exI, rule exI, rule conjI, rule res)
    using lw bias
    apply (auto simp: length_caffe_cpu_gemm caffe_cpu_gemm_nth length_caffe_cpu_gemv
        caffe_cpu_gemv_trans_nth)
    done
qed

text \<open>
  C6. For a layer set up with dimensions \<open>M\<close>, \<open>K\<close>, \<open>N\<close>: without \<^verbatim>\<open>propagate_down\<close>
  the input tensor comes back unchanged; with it, only the diff view of the input changes,
  and it holds the \<open>M \<times> K\<close> product of the top gradient and the weight. Of the layer only
  the Parameter Store changes, of its tensors only the diff views, and only those of the
  weight and (with a bias term) of the bias.
\<close>

theorem Backward_cpu_input_gradient_and_frame:
  assumes "shapes_ok L bottom top_blob"
  shows "\<exists>L' bottom'. Backward_cpu L top_blob propagate_down bottom = Inr (L', bottom') \<and>
           (\<not> propagate_down \<longrightarrow> bottom' = bottom) \<and>
           (propagate_down \<longrightarrow>
              bottom' = bottom\<lparr>diff := diff bottom'\<rparr> \<and>
              length (diff bottom') = M_dim L * K_dim L \<and>
              (\<forall>i<M_dim L. \<forall>k<K_dim L.
                 diff bottom' ! (i * K_dim L + k) =
                   (\<Sum>j<N_dim L. diff top_blob ! (i * N_dim L + j) *
                                  data (blobs L ! 0) ! (j * K_dim L + k)))) \<and>
           L' = L\<lparr>blobs := blobs L'\<rparr> \<and>
           length (blobs L') = length (blobs L) \<and>
           (\<forall>n<length (blobs L).
              blobs L' ! n = (blobs L ! n)\<lparr>diff := diff (blobs L' ! n)\<rparr> \<and>
              ((if bias_term L then 2 else 1) \<le> n \<longrightarrow> blobs L' ! n = blobs L ! n))"
proof -
  from assms obtain W rest where b: "blobs L = W # rest"
    and lb: "length (diff bottom) = M_dim L * K_dim L"
    by (rule shapes_okE)
  have bias: "\<exists>B rest' bm. rest = B # rest' \<and> bias_multiplier L = Some bm" if "bias_term L"
    using shapes_ok_biasE [OF assms that] b by (metis list.inject)
  define W' where "W' = W\<lparr>diff := caffe_cpu_gemm CblasTrans CblasNoTrans (N_dim L) (K_dim L)
                                     (M_dim L) 1 (diff top_blob) (data bottom) 0 (diff W)\<rparr>"
  define rest2 where "rest2 =
    (if bias_term L
     then (hd rest)\<lparr>diff := caffe_cpu_gemv CblasTrans (M_dim L) (N_dim L) 1
                               (diff top_blob) (the (bias_multiplier L)) 0 (diff (hd rest))\<rparr>
          # tl rest
     else rest)"
  define bottom' where "bottom' =
    (if propagate_down
     then bottom\<lparr>diff := caffe_cpu_gemm CblasNoTrans CblasNoTrans (M_dim L) (K_dim L) (N_dim L) 1
                             (diff top_blob) (data W) 0 (diff bottom)\<rparr>
     else bottom)"
  have res: "Backward_cpu L top_blob propagate_down bottom = Inr (L\<lparr>blobs := W' # rest2\<rparr>, bottom')"
    unfolding W'_def rest2_def bottom'_def by (rule Backward_cpu_result [OF b bias])
  have c1: "\<not> propagate_down \<longrightarrow> bottom' = bottom"
    by (simp add: bottom'_def)
  have c2: "propagate_down \<longrightarrow>
              bottom' = bottom\<lparr>diff := diff bottom'\<rparr> \<and>
              length (diff bottom') = M_dim L * K_dim L \<and>
              (\<forall>i<M_dim L. \<forall>k<K_dim L.
                 diff bottom' ! (i * K_dim L + k) =
                   (\<Sum>j<N_dim L. diff top_blob ! (i * N_dim L + j) *
                                  data (blobs L ! 0) ! (j * K_dim L + k)))"
    using lb b by (simp add: bottom'_def length_caffe_cpu_gemm caffe_cpu_gemm_nth)
  have len: "length rest2 = length rest"
    using bias by (auto simp: rest2_def)
  have frame: "(W' # rest2) ! n = ((W # rest) ! n)\<lparr>diff := diff ((W' # rest2) ! n)\<rparr> \<and>
                 ((if bias_term L then 2 else 1) \<le> n \<longrightarrow> (W' # rest2) ! n = (W # rest) ! n)"
    if "n < length (W # rest)" for n
  proof (cases n)
    case 0
    then show ?thesis by (simp add: W'_def)
  next
    case (Suc m)
    show ?thesis
    proof (cases "bias_term L")
      case False
      with Suc show ?thesis by (simp add: rest2_def)
    next
      case True
      then obtain B rest' where "rest = B # rest'" using bias by blast
      with Suc True show ?thesis by (cases m) (simp_all add: rest2_def)
    qed
  qed
  have c3: "L\<lparr>blobs := W' # rest2\<rparr> = L\<lparr>blobs := blobs (L\<lparr>blobs := W' # rest2\<rparr>)\<rparr>"
    by simp
  have c4: "length (blobs (L\<lparr>blobs := W' # rest2\<rparr>)) = length (blobs L)"
    using len b by simp
  have c5: "\<forall>n<length (blobs L).
              blobs (L\<lparr>blobs := W' # rest2\<rparr>) ! n
                = (blobs L ! n)\<lparr>diff := diff (blobs (L\<lparr>blobs := W' # rest2\<rparr>) ! n)\<rparr> \<and>
              ((if bias_term L then 2 else 1) \<le> n \<longrightarrow>
                 blobs (L\<lparr>blobs := W' # rest2\<rparr>) ! n = blobs L ! n)"
    using frame b by simp
  from res c1 c2 c3 c4 c5 show ?thesis by blast
qed


lemma trained_shapes_ok: "shapes_ok trained_layer example_bottom trained_top"
  by (simp add: shapes_ok_def trained_layer_def example_bottom_def trained_top_def
      example_weight_def example_bias_def)

theorem Backward_cpu_parameter_gradients_witness:
  "shapes_ok trained_layer example_bottom trained_top \<and>
   (\<exists>L' bottom'. Backward_cpu trained_layer trained_top False example_bottom = Inr (L', bottom') \<and>
      diff (blobs L' ! 0) ! 0 = 9 \<and> diff (blobs L' ! 0) ! 5 = 6 \<and> diff (blobs L' ! 1) ! 0 = 3)"
proof -
  have h: "shapes_ok trained_layer example_bottom trained_top"
    by (rule trained_shapes_ok)
  from Backward_cpu_parameter_gradients [OF h, of False] obtain L' bottom' where
    r: "Backward_cpu trained_layer trained_top False example_bottom = Inr (L', bottom')"
    and w: "\<forall>j<N_dim trained_layer. \<forall>k<K_dim trained_layer.
              diff (blobs L' ! 0) ! (j * K_dim trained_layer + k) =
                (\<Sum>i<M_dim trained_layer. diff trained_top ! (i * N_dim trained_layer + j) *
                    data example_bottom ! (i * K_dim trained_layer + k))"
    and b: "bias_term trained_layer \<longrightarrow>
              (\<forall>j<N_dim trained_layer.
                 diff (blobs L' ! 1) ! j =
                   (\<Sum>i<M_dim trained_layer. diff trained_top ! (i * N_dim trained_layer + j) *
                       the (bias_multiplier trained_layer) ! i))"
    by blast
  have "diff (blobs L' ! 0) ! (0 * K_dim trained_layer + 0) = 9"
    using w [rule_format, of 0 0]
    by (simp add: trained_layer_def example_bottom_def trained_top_def eval_nat_numeral)
  moreover have "diff (blobs L' ! 0) ! (1 * K_dim trained_layer + 2) = 6"
    using w [rule_format, of 1 2]
    by (simp add: trained_layer_def example_bottom_def trained_top_def eval_nat_numeral)
  moreover have "diff (blobs L' ! 1) ! 0 = 3"
    using b [rule_format, of 0]
    by (simp add: trained_layer_def example_bottom_def trained_top_def eval_nat_numeral)
  ultimately show ?thesis
    using h r by (auto simp: trained_layer_def)
qed

theorem Backward_cpu_input_gradient_and_frame_witness:
  "shapes_ok trained_layer example_bottom trained_top \<and>
   (\<exists>L' bottom'. Backward_cpu trained_layer trained_top True example_bottom = Inr (L', bottom') \<and>
      diff bottom' ! 3 = 10 \<and> data bottom' = data example_bottom \<and>
      data (blobs L' ! 0) = data example_weight) \<and>
   (\<exists>L'. Backward_cpu trained_layer trained_top False example_bottom = Inr (L', example_bottom))"
proof -
  have h: "shapes_ok trained_layer example_bottom trained_top"
    by (rule trained_shapes_ok)
  from Backward_cpu_input_gradient_and_frame [OF h, of True] obtain L' bottom' where
    r: "Backward_cpu trained_layer trained_top True example_bottom = Inr (L', bottom')"
    and f: "bottom' = example_bottom\<lparr>diff := diff bottom'\<rparr>"
    and g: "\<forall>i<M_dim trained_layer. \<forall>k<K_dim trained_layer.
                 diff bottom' ! (i * K_dim trained_layer + k) =
                   (\<Sum>j<N_dim trained_layer. diff trained_top ! (i * N_dim trained_layer + j) *
                       data (blobs trained_layer ! 0) ! (j * K_dim trained_layer + k))"
    and p: "\<forall>n<length (blobs trained_layer).
              blobs L' ! n = (blobs trained_layer ! n)\<lparr>diff := diff (blobs L' ! n)\<rparr> \<and>
              ((if bias_term trained_layer then 2 else 1) \<le> n \<longrightarrow>
                 blobs L' ! n = blobs trained_layer ! n)"
    by blast
  have "diff bottom' ! (1 * K_dim trained_layer + 0) = 10"
    using g [rule_format, of 1 0]
    by (simp add: trained_layer_def example_weight_def trained_top_def eval_nat_numeral)
  then have a: "diff bottom' ! 3 = 10" by (simp add: trained_layer_def)
  have b: "data bottom' = data example_bottom"
    using arg_cong [OF f, of data] by simp
  have "blobs L' ! 0 = (blobs trained_layer ! 0)\<lparr>diff := diff (blobs L' ! 0)\<rparr>"
    using p [rule_format, of 0] by (simp add: trained_layer_def)
  from arg_cong [OF this, of data] have c: "data (blobs L' ! 0) = data example_weight"
    by (simp add: trained_layer_def)
  from Backward_cpu_input_gradient_and_frame [OF h, of False]
  have d: "\<exists>L'. Backward_cpu trained_layer trained_top False example_bottom = Inr (L', example_bottom)"
    by auto
  from h r a b c d show ?thesis by blast
qed

section \<open>Normalizing the weights\<close>

subsection \<open>Strided groups of a buffer\<close>

lemma caffe_scal_Suc:
  "caffe_scal (Suc n) a buf x S =
     (caffe_scal n a buf x S)[x + n * S := a * caffe_scal n a buf x S ! (x + n * S)]"
  by (simp add: caffe_scal_def)

lemma length_caffe_scal: "length (caffe_scal n a buf x S) = length buf"
  by (induction n) (simp_all add: caffe_scal_Suc, simp add: caffe_scal_def)

lemma caffe_scal_nth:
  assumes "0 < S" and "p < length buf"
  shows "caffe_scal n a buf x S ! p = (if \<exists>j<n. p = x + j * S then a * buf ! p else buf ! p)"
  using assms(2)
proof (induction n)
  case 0
  then show ?case by (simp add: caffe_scal_def)
next
  case (Suc n)
  have fresh: "\<not> (\<exists>j<n. x + n * S = x + j * S)" using assms(1) by auto
  show ?case
  proof (cases "p = x + n * S")
    case True
    with Suc fresh show ?thesis
      by (auto simp: caffe_scal_Suc length_caffe_scal)
  next
    case False
    then have "(\<exists>j<Suc n. p = x + j * S) \<longleftrightarrow> (\<exists>j<n. p = x + j * S)"
      by (auto simp: less_Suc_eq)
    with Suc False show ?thesis
      by (simp add: caffe_scal_Suc length_caffe_scal)
  qed
qed

lemma strided_index_inj:
  assumes "x < S" and "y < S" and "y + j * S = x + j' * (S::nat)"
  shows "y = x"
proof -
  have "(y + j * S) mod S = y" using assms(2) by simp
  moreover have "(x + j' * S) mod S = x" using assms(1) by simp
  ultimately show ?thesis using assms(3) by simp
qed

lemma column_in_range:
  "E * S \<le> length buf \<Longrightarrow> y < S \<Longrightarrow> j < E \<Longrightarrow> y + j * S < length (buf::real list)"
  using flat_index_less [of j E y S] by (simp add: add.commute)

lemma column_caffe_scal:
  assumes "E * S \<le> length buf" and "x < S" and "y < S"
  shows "column (caffe_scal E a buf x S) y E S =
           (if y = x then map ((*) a) (column buf x E S) else column buf y E S)"
proof -
  have S: "0 < S" using assms(2) by simp
  have "caffe_scal E a buf x S ! (y + j * S) = (if y = x then a * buf ! (x + j * S) else buf ! (y + j * S))"
    if "j < E" for j
  proof -
    have r: "y + j * S < length buf" using assms(1,3) that by (rule column_in_range)
    show ?thesis
    proof (cases "y = x")
      case True
      have r': "x + j * S < length buf" using r True by simp
      have "\<exists>j'<E. x + j * S = x + j' * S" using that by blast
      with True show ?thesis by (simp add: caffe_scal_nth [OF S r'])
    next
      case False
      then have "\<not> (\<exists>j'<E. y + j * S = x + j' * S)"
        using strided_index_inj [OF assms(2,3)] by blast
      with False show ?thesis by (auto simp: caffe_scal_nth [OF S r])
    qed
  qed
  then show ?thesis by (cases "y = x") (simp_all add: column_def)
qed

lemma caffe_cpu_norm2_column: "caffe_cpu_norm2 E buf x S = l2_norm (column buf x E S)"
  by (simp add: caffe_cpu_norm2_def l2_norm_def column_def comp_def)

lemma length_rescale_group: "length (rescale_group ar outside t E S x buf) = length buf"
  by (simp add: rescale_group_def Let_def length_caffe_scal)

lemma column_rescale_group:
  assumes "E * S \<le> length buf" and "x < S" and "y < S"
  shows "column (rescale_group ar outside t E S x buf) y E S =
           (if y = x \<and> outside (l2_norm (column buf x E S))
            then map ((*) (Dtype_div ar t (Dtype_add ar (l2_norm (column buf x E S)) (Dtype_1e_7 ar))))
                   (column buf x E S)
            else column buf y E S)"
  by (simp add: rescale_group_def Let_def caffe_cpu_norm2_column column_caffe_scal [OF assms]
      column_caffe_scal [OF assms(1) assms(2) assms(2)])

lemma length_walk_groups: "length (walk_groups ar outside t G off E S buf) = length buf"
proof -
  have "length (fold (\<lambda>i. rescale_group ar outside t E S (i * off)) is buf) = length buf" for "is"
    by (induction "is" arbitrary: buf) (simp_all add: length_rescale_group)
  then show ?thesis by (simp add: walk_groups_def)
qed

lemma column_walk_groups:
  assumes "E * S \<le> length buf"
  shows "n \<le> S \<Longrightarrow> y < S \<Longrightarrow>
         column (walk_groups ar outside t n 1 E S buf) y E S =
           (if y < n \<and> outside (l2_norm (column buf y E S))
            then map ((*) (Dtype_div ar t (Dtype_add ar (l2_norm (column buf y E S)) (Dtype_1e_7 ar))))
                   (column buf y E S)
            else column buf y E S)"
proof (induction n arbitrary: y)
  case 0
  then show ?case by (simp add: walk_groups_def)
next
  case (Suc n)
  let ?b = "walk_groups ar outside t n 1 E S buf"
  have step: "walk_groups ar outside t (Suc n) 1 E S buf = rescale_group ar outside t E S n ?b"
    by (simp add: walk_groups_def)
  have len: "E * S \<le> length ?b" using assms by (simp add: length_walk_groups)
  have n: "n < S" and n': "n \<le> S" using Suc.prems by simp_all
  have IHy: "column ?b y E S =
           (if y < n \<and> outside (l2_norm (column buf y E S))
            then map ((*) (Dtype_div ar t (Dtype_add ar (l2_norm (column buf y E S)) (Dtype_1e_7 ar))))
                   (column buf y E S)
            else column buf y E S)"
    using Suc.IH [OF n' Suc.prems(2)] .
  have IHn: "column ?b n E S = column buf n E S"
    using Suc.IH [OF n' n] by simp
  show ?case
    unfolding step column_rescale_group [OF len n Suc.prems(2)]
    using IHy IHn by (auto simp: less_Suc_eq)
qed

lemma fold_upt_Suc_shift:
  "fold f [0..<Suc n] b = fold (\<lambda>i. f (Suc i)) [0..<n] (f 0 b)"
proof -
  have "[0..<Suc n] = 0 # map Suc [0..<n]"
    by (simp add: upt_conv_Cons map_Suc_upt del: upt_Suc)
  then show ?thesis by (simp add: fold_map comp_def del: upt_Suc)
qed

lemma max_norm_cpu_Suc:
  "max_norm_cpu ar (Suc n) M N off mnorm w buf =
     max_norm_cpu ar n M N off mnorm (w + off) (rescale_group ar (\<lambda>nrm. mnorm < nrm) mnorm M N w buf)"
  by (simp add: rescale_group_def Let_def)

lemma max_norm_cpu_fold:
  "max_norm_cpu ar n M N off mnorm w buf =
     fold (\<lambda>i. rescale_group ar (\<lambda>nrm. mnorm < nrm) mnorm M N (w + i * off)) [0..<n] buf"
proof (induction n arbitrary: w buf)
  case 0
  show ?case by simp
next
  case (Suc n)
  have "max_norm_cpu ar (Suc n) M N off mnorm w buf =
          fold (\<lambda>i. rescale_group ar (\<lambda>nrm. mnorm < nrm) mnorm M N (w + off + i * off)) [0..<n]
            (rescale_group ar (\<lambda>nrm. mnorm < nrm) mnorm M N w buf)"
    by (simp only: max_norm_cpu_Suc Suc.IH)
  also have "\<dots> = fold (\<lambda>i. rescale_group ar (\<lambda>nrm. mnorm < nrm) mnorm M N (w + Suc i * off)) [0..<n]
            (rescale_group ar (\<lambda>nrm. mnorm < nrm) mnorm M N (w + 0 * off) buf)"
    by (simp add: add.assoc del: upt_Suc)
  also have "\<dots> = fold (\<lambda>i. rescale_group ar (\<lambda>nrm. mnorm < nrm) mnorm M N (w + i * off)) [0..<Suc n] buf"
    by (rule fold_upt_Suc_shift [symmetric])
  finally show ?case .
qed

lemma norm_band_cpu_Suc:
  "norm_band_cpu ar (Suc n) M N off mn mx tg w buf =
     norm_band_cpu ar n M N off mn mx tg (w + off)
       (rescale_group ar (\<lambda>nrm. mx < nrm \<or> nrm < mn) tg M N w buf)"
  by (simp add: rescale_group_def Let_def)

lemma norm_band_cpu_fold:
  "norm_band_cpu ar n M N off mn mx tg w buf =
     fold (\<lambda>i. rescale_group ar (\<lambda>nrm. mx < nrm \<or> nrm < mn) tg M N (w + i * off)) [0..<n] buf"
proof (induction n arbitrary: w buf)
  case 0
  show ?case by simp
next
  case (Suc n)
  have "norm_band_cpu ar (Suc n) M N off mn mx tg w buf =
          fold (\<lambda>i. rescale_group ar (\<lambda>nrm. mx < nrm \<or> nrm < mn) tg M N (w + off + i * off)) [0..<n]
            (rescale_group ar (\<lambda>nrm. mx < nrm \<or> nrm < mn) tg M N w buf)"
    by (simp only: norm_band_cpu_Suc Suc.IH)
  also have "\<dots> = fold (\<lambda>i. rescale_group ar (\<lambda>nrm. mx < nrm \<or> nrm < mn) tg M N (w + Suc i * off))
            [0..<n] (rescale_group ar (\<lambda>nrm. mx < nrm \<or> nrm < mn) tg M N (w + 0 * off) buf)"
    by (simp add: add.assoc del: upt_Suc)
  also have "\<dots> = fold (\<lambda>i. rescale_group ar (\<lambda>nrm. mx < nrm \<or> nrm < mn) tg M N (w + i * off))
            [0..<Suc n] buf"
    by (rule fold_upt_Suc_shift [symmetric])
  finally show ?case .
qed

lemma caffe_gpu_norm2_eq: "caffe_gpu_norm2 n buf x incx = caffe_cpu_norm2 n buf x incx"
  by (simp add: caffe_gpu_norm2_def caffe_cpu_norm2_def)

lemma caffe_gpu_scal_eq: "caffe_gpu_scal n a buf x incx = caffe_scal n a buf x incx"
  by (simp add: caffe_gpu_scal_def caffe_scal_def)

lemma max_norm_gpu_eq: "max_norm_gpu ar n M N off mnorm w buf = max_norm_cpu ar n M N off mnorm w buf"
  by (induction n arbitrary: w buf) (simp_all add: caffe_gpu_norm2_eq caffe_gpu_scal_eq Let_def)

lemma norm_band_gpu_eq:
  "norm_band_gpu ar n M N off mn mx tg w buf = norm_band_cpu ar n M N off mn mx tg w buf"
  by (induction n arbitrary: w buf) (simp_all add: caffe_gpu_norm2_eq caffe_gpu_scal_eq Let_def)

lemma max_norm_cpu_walk:
  "max_norm_cpu ar n M N off mnorm 0 buf = walk_groups ar (\<lambda>nrm. mnorm < nrm) mnorm n off M N buf"
  by (simp add: max_norm_cpu_fold walk_groups_def)

lemma norm_band_cpu_walk:
  "norm_band_cpu ar n M N off mn mx tg 0 buf =
     walk_groups ar (\<lambda>nrm. mx < nrm \<or> nrm < mn) tg n off M N buf"
  by (simp add: norm_band_cpu_fold walk_groups_def)

lemma normalize_weights_walk:
  assumes "blobs L = W # rest" and "mode = CPU \<or> mode = GPU"
  shows "normalize_weights ar mode mnorm L =
           Inr (L\<lparr>blobs := W\<lparr>data := walk_groups ar (\<lambda>nrm. mnorm < nrm) mnorm
                                          (width W) 1 (height W) (width W) (data W)\<rparr> # rest\<rparr>)"
  using assms
  by (auto simp: normalize_weights_def Let_def offset_def max_norm_gpu_eq max_norm_cpu_walk)

lemma normalize_weights3_walk:
  assumes "blobs L = W # rest" and "mode = CPU \<or> mode = GPU"
  shows "normalize_weights3 ar mode mn mx tg L =
           Inr (L\<lparr>blobs := W\<lparr>data := walk_groups ar (\<lambda>nrm. mx < nrm \<or> nrm < mn) tg
                                          (width W) 1 (height W) (width W) (data W)\<rparr> # rest\<rparr>)"
  using assms
  by (auto simp: normalize_weights3_def Let_def offset_def norm_band_gpu_eq
      norm_band_cpu_walk)

lemma eps_pos: "0 < eps"
  by (simp add: eps_def)

lemma eps_less_one: "eps < 1"
  by (simp add: eps_def)

lemma walked_group_Cons:
  "blobs L = W # rest \<Longrightarrow> walked_group L i = column (data W) i (height W) (width W)"
  by (simp add: walked_group_def offset_def)

lemma length_column: "length (column buf start E S) = E"
  by (simp add: column_def)

lemma walked_group_after:
  fixes ar :: Dtype_arith and outside :: "real \<Rightarrow> bool" and t :: real
  assumes "blobs L = W # rest" and "length (data W) = height W * width W" and "i < width W"
  defines "L' \<equiv> L\<lparr>blobs := W\<lparr>data := walk_groups ar outside t (width W) 1 (height W) (width W)
                                            (data W)\<rparr> # rest\<rparr>"
  shows "walked_group L' i =
           (if outside (l2_norm (walked_group L i))
            then map ((*) (Dtype_div ar t (Dtype_add ar (l2_norm (walked_group L i)) (Dtype_1e_7 ar))))
                   (walked_group L i)
            else walked_group L i)"
proof -
  have len: "height W * width W \<le> length (data W)" using assms(2) by simp
  have old: "walked_group L i = column (data W) i (height W) (width W)"
    using assms(1) by (rule walked_group_Cons)
  have new: "walked_group L' i =
               column (walk_groups ar outside t (width W) 1 (height W) (width W) (data W)) i
                 (height W) (width W)"
    by (simp add: walked_group_def L'_def offset_def)
  show ?thesis
    unfolding new old
    using column_walk_groups [OF len order_refl assms(3), of ar outside t] assms(3) by simp
qed

lemma one_unit_layer_within_bound:
  "normalize_weights ar CPU 1 one_unit_layer = Inr one_unit_layer"
  by (simp add: normalize_weights_def one_unit_layer_def one_unit_weight_def Let_def offset_def
      caffe_cpu_norm2_def caffe_scal_def eval_nat_numeral)

lemma one_unit_spec_column: "spec_weight_column one_unit_layer 0 = [1, 1]"
  by (simp add: spec_weight_column_def one_unit_layer_def one_unit_weight_def column_def
      eval_nat_numeral)

lemma l2_norm_ones: "l2_norm [1, 1] = sqrt 2"
  by (simp add: l2_norm_def)

lemma sqrt_2_bounds: "1 + eps < sqrt 2" "6 / 5 \<le> sqrt 2" "sqrt 2 \<le> 2"
proof -
  have "(1 + eps)\<^sup>2 < 2" by (simp add: eps_def power2_eq_square)
  then show "1 + eps < sqrt 2" by (rule real_less_rsqrt)
  have "(6 / 5 :: real)\<^sup>2 \<le> 2" by (simp add: power2_eq_square)
  then show "6 / 5 \<le> sqrt 2" by (rule real_le_rsqrt)
  have "sqrt 2 \<le> sqrt (2\<^sup>2 :: real)" by (simp only: real_sqrt_le_iff) simp
  then show "sqrt 2 \<le> 2" by simp
qed

lemma zero_weight_stays:
  "normalize_weights3 ar CPU 1 2 1 (single_weight_layer 0) = Inr (single_weight_layer 0)"
  by (simp add: normalize_weights3_def single_weight_layer_def Let_def offset_def
      caffe_cpu_norm2_def caffe_scal_def)

lemma zero_spec_column: "spec_weight_column (single_weight_layer 0) 0 = [0]"
  by (simp add: spec_weight_column_def single_weight_layer_def column_def)

lemma one_unit_layer_band:
  "normalize_weights3 exact_arith CPU (6 / 5) 2 (13 / 10) one_unit_layer = Inr one_unit_rescaled"
  by (simp add: normalize_weights3_def one_unit_layer_def one_unit_weight_def Let_def offset_def
      caffe_cpu_norm2_def caffe_scal_def eval_nat_numeral exact_arith_def one_unit_rescaled_def)

lemma one_unit_rescaled_column:
  "spec_weight_column one_unit_rescaled 0 = [13 / 10 / (1 + eps), 13 / 10 / (1 + eps)]"
  by (simp add: spec_weight_column_def one_unit_rescaled_def one_unit_layer_def
      one_unit_weight_def column_def eval_nat_numeral)

lemma trained_walked_groups:
  "walked_group trained_layer 0 = [3, 4]" "walked_group trained_layer (Suc 0) = [0, 1]"
  by (simp_all add: walked_group_def trained_layer_def example_weight_def column_def offset_def
      eval_nat_numeral)

lemma l2_norm_examples: "l2_norm [3, 4] = 5" "l2_norm [0, 1] = 1"
proof -
  have "sqrt 25 = sqrt (5\<^sup>2)" by simp
  also have "\<dots> = 5" by (simp only: real_sqrt_abs abs_numeral)
  finally show "l2_norm [3, 4] = 5" by (simp add: l2_norm_def)
  show "l2_norm [0, 1] = 1" by (simp add: l2_norm_def)
qed

lemma trained_layer_set_up:
  "blobs trained_layer = example_weight # [example_bias]"
  "height example_weight = N_dim trained_layer"
  "width example_weight = K_dim trained_layer"
  "length (data example_weight) = N_dim trained_layer * K_dim trained_layer"
  by (simp_all add: trained_layer_def example_weight_def)

subsection \<open>The groups that the loops walk\<close>

text \<open>
  C5, as the code has it. On a layer that is set up (the weight tensor has \<open>N\<close> rows and \<open>K\<close>
  columns, \<open>N\<close> the number of output units and \<open>K\<close> the input feature count), both
  \<^verbatim>\<open>normalize_weights\<close>, in CPU and in GPU mode, walk \<open>K\<close> groups: the number of groups is
  the width of the weight tensor, the input feature count. Group \<open>i\<close> begins at
  \<open>base + i * off\<close> with \<open>off = 1\<close>, and the norm and the rescaling of a group operate on
  \<open>N\<close> elements, one for each output unit, spaced \<open>K\<close> apart.
\<close>

theorem normalize_weights_addressing:
  assumes "blobs L = W # rest" and "height W = N_dim L" and "width W = K_dim L"
    and "mode = CPU \<or> mode = GPU"
  shows "offset W 0 0 0 1 = 1 \<and>
         normalize_weights ar mode mnorm L =
           Inr (L\<lparr>blobs := W\<lparr>data := walk_groups ar (\<lambda>nrm. mnorm < nrm) mnorm
                                          (K_dim L) (offset W 0 0 0 1) (N_dim L) (K_dim L) (data W)\<rparr>
                            # rest\<rparr>) \<and>
         normalize_weights3 ar mode min_norm max_norm target_norm L =
           Inr (L\<lparr>blobs := W\<lparr>data := walk_groups ar (\<lambda>nrm. max_norm < nrm \<or> nrm < min_norm)
                                          target_norm
                                          (K_dim L) (offset W 0 0 0 1) (N_dim L) (K_dim L) (data W)\<rparr>
                            # rest\<rparr>)"
  using normalize_weights_walk [OF assms(1,4), of ar mnorm]
    normalize_weights3_walk [OF assms(1,4), of ar min_norm max_norm target_norm] assms(2,3)
  by (simp add: offset_def)

theorem normalize_weights_addressing_witness:
  "blobs trained_layer = example_weight # [example_bias] \<and>
   height example_weight = N_dim trained_layer \<and> width example_weight = K_dim trained_layer \<and>
   normalize_weights exact_arith CPU 1 trained_layer =
     Inr (trained_layer\<lparr>blobs :=
            [example_weight\<lparr>data := walk_groups exact_arith ((<) 1) 1 3 1 2 3 [3, 0, 1, 4, 1, 0]\<rparr>,
             example_bias]\<rparr>)"
proof -
  have h4: "CPU = CPU \<or> CPU = GPU" by simp
  have d: "K_dim trained_layer = 3" "N_dim trained_layer = 2"
    "data example_weight = [3, 0, 1, 4, 1, 0]"
    by (simp_all add: trained_layer_def example_weight_def)
  show ?thesis
    using trained_layer_set_up(1,2,3)
      normalize_weights_addressing [OF trained_layer_set_up(1,2,3) h4, of exact_arith 1 0 0 0]
    by (simp only: d)
qed

text \<open>
  The reading of C5 with one group for each output unit, of \<open>K\<close> elements spaced \<open>N\<close>
  apart, is not what the code does. With one output unit and the two weights \<open>1, 1\<close>, the
  code sees two groups of norm \<open>1\<close> and a bound of \<open>1\<close> leaves the weights alone; a single
  group of both weights has norm \<open>sqrt 2\<close> and would be rescaled.
\<close>

theorem normalize_weights_groups_not_per_output_unit:
  "normalize_weights exact_arith CPU 1 one_unit_layer \<noteq>
     Inr (one_unit_layer\<lparr>blobs :=
            [one_unit_weight\<lparr>data := walk_groups exact_arith ((<) 1) 1 (N_dim one_unit_layer)
                                       (offset one_unit_weight 0 0 0 1) (K_dim one_unit_layer)
                                       (N_dim one_unit_layer) (data one_unit_weight)\<rparr>]\<rparr>)"
proof -
  have code: "normalize_weights exact_arith CPU 1 one_unit_layer = Inr one_unit_layer"
    by (rule one_unit_layer_within_bound)
  have s: "1 < sqrt 2" by simp
  have spec: "walk_groups exact_arith ((<) 1) 1 (N_dim one_unit_layer)
                (offset one_unit_weight 0 0 0 1) (K_dim one_unit_layer) (N_dim one_unit_layer)
                (data one_unit_weight)
              = [1 / (sqrt 2 + eps), 1 / (sqrt 2 + eps)]"
    using s
    by (simp add: walk_groups_def rescale_group_def one_unit_layer_def one_unit_weight_def Let_def
        offset_def caffe_cpu_norm2_def caffe_scal_def eval_nat_numeral exact_arith_def)
  have "1 < sqrt 2 + eps" using s eps_pos by linarith
  then have ne: "1 / (sqrt 2 + eps) \<noteq> 1" by simp
  have d: "data (hd (blobs one_unit_layer)) = [1, 1]"
    by (simp add: one_unit_layer_def one_unit_weight_def)
  show ?thesis
  proof
    assume "normalize_weights exact_arith CPU 1 one_unit_layer =
      Inr (one_unit_layer\<lparr>blobs :=
            [one_unit_weight\<lparr>data := walk_groups exact_arith ((<) 1) 1 (N_dim one_unit_layer)
                                       (offset one_unit_weight 0 0 0 1) (K_dim one_unit_layer)
                                       (N_dim one_unit_layer) (data one_unit_weight)\<rparr>]\<rparr>)"
    then have "one_unit_layer =
       one_unit_layer\<lparr>blobs := [one_unit_weight\<lparr>data := [1 / (sqrt 2 + eps), 1 / (sqrt 2 + eps)]\<rparr>]\<rparr>"
      unfolding code spec by simp
    then have "data (hd (blobs one_unit_layer)) =
       data (hd (blobs (one_unit_layer\<lparr>blobs :=
          [one_unit_weight\<lparr>data := [1 / (sqrt 2 + eps), 1 / (sqrt 2 + eps)]\<rparr>]\<rparr>)))"
      by (rule arg_cong)
    then have "data (hd (blobs one_unit_layer)) = [1 / (sqrt 2 + eps), 1 / (sqrt 2 + eps)]"
      by simp
    with d ne show False by simp
  qed
qed

subsection \<open>The max-norm clamp\<close>

text \<open>
  C3, as the code has it. On a layer that is set up, \<^verbatim>\<open>normalize_weights\<close> with one argument
  returns in CPU and in GPU mode, and for each of the \<open>K\<close> groups that its loop walks (group
  \<open>i\<close> holds the \<open>N\<close> elements at \<open>i\<close>, \<open>i + K\<close>, \<open>i + 2 * K\<close>, and so on, one for each
  output unit): a group whose norm exceeded \<open>max_norm\<close> has been multiplied by the factor
  \<open>max_norm / (norm + 1e-7)\<close> as \<^verbatim>\<open>Dtype\<close> computes it, and a group whose norm was within
  the bound is unchanged. Nothing is said of the norms after the call.
\<close>

theorem normalize_weights_max_norm:
  assumes "blobs L = W # rest" and "height W = N_dim L" and "width W = K_dim L"
    and "length (data W) = N_dim L * K_dim L" and "mode = CPU \<or> mode = GPU"
  shows "\<exists>L'. normalize_weights ar mode mnorm L = Inr L' \<and>
           (\<forall>i<K_dim L.
              length (walked_group L i) = N_dim L \<and>
              (mnorm < l2_norm (walked_group L i) \<longrightarrow>
                 walked_group L' i =
                   map ((*) (Dtype_div ar mnorm
                               (Dtype_add ar (l2_norm (walked_group L i)) (Dtype_1e_7 ar))))
                     (walked_group L i)) \<and>
              (l2_norm (walked_group L i) \<le> mnorm \<longrightarrow> walked_group L' i = walked_group L i))"
proof -
  define L' where "L' = L\<lparr>blobs := W\<lparr>data := walk_groups ar (\<lambda>nrm. mnorm < nrm) mnorm (width W) 1
                                              (height W) (width W) (data W)\<rparr> # rest\<rparr>"
  have r: "normalize_weights ar mode mnorm L = Inr L'"
    unfolding L'_def using assms(1,5) by (rule normalize_weights_walk)
  have len: "length (data W) = height W * width W" using assms(2,3,4) by simp
  have n: "length (walked_group L i) = N_dim L" for i
    using assms(2) by (simp add: walked_group_Cons [OF assms(1)] length_column)
  have g: "walked_group L' i =
           (if mnorm < l2_norm (walked_group L i)
            then map ((*) (Dtype_div ar mnorm
                             (Dtype_add ar (l2_norm (walked_group L i)) (Dtype_1e_7 ar))))
                   (walked_group L i)
            else walked_group L i)" if "i < K_dim L" for i
    unfolding L'_def using assms(1) len that [folded assms(3)] by (rule walked_group_after)
  show ?thesis using r n g by auto
qed

theorem normalize_weights_max_norm_witness:
  "blobs trained_layer = example_weight # [example_bias] \<and>
   height example_weight = N_dim trained_layer \<and> width example_weight = K_dim trained_layer \<and>
   length (data example_weight) = N_dim trained_layer * K_dim trained_layer \<and>
   (\<exists>L'. normalize_weights exact_arith GPU 1 trained_layer = Inr L' \<and>
      walked_group L' 0 = map ((*) (1 / (5 + eps))) [3, 4] \<and>
      walked_group L' 1 = [0, 1])"
proof -
  have m: "GPU = CPU \<or> GPU = GPU" by simp
  from normalize_weights_max_norm [OF trained_layer_set_up m, of exact_arith 1] obtain L' where
    r: "normalize_weights exact_arith GPU 1 trained_layer = Inr L'"
    and g: "\<forall>i<K_dim trained_layer.
              (1 < l2_norm (walked_group trained_layer i) \<longrightarrow>
                 walked_group L' i =
                   map ((*) (Dtype_div exact_arith 1
                               (Dtype_add exact_arith (l2_norm (walked_group trained_layer i))
                                  (Dtype_1e_7 exact_arith))))
                     (walked_group trained_layer i)) \<and>
              (l2_norm (walked_group trained_layer i) \<le> 1 \<longrightarrow>
                 walked_group L' i = walked_group trained_layer i)"
    by blast
  have k: "(0::nat) < K_dim trained_layer" "(1::nat) < K_dim trained_layer"
    by (simp_all add: trained_layer_def)
  have "walked_group L' 0 = map ((*) (1 / (5 + eps))) [3, 4]"
    using g [rule_format, OF k(1)]
    by (simp add: trained_walked_groups l2_norm_examples exact_arith_def)
  moreover have "walked_group L' 1 = [0, 1]"
    using g [rule_format, OF k(2)]
    by (simp add: trained_walked_groups l2_norm_examples)
  ultimately show ?thesis using trained_layer_set_up r by blast
qed

text \<open>
  The weight column of an output unit is not what the code bounds. With one output unit and
  the two weights \<open>1, 1\<close>, and \<open>max_norm = 1\<close>, both groups of the code have norm \<open>1\<close>
  and no factor is computed, in any arithmetic; the weights stay as they are, and the
  column of the unit keeps the norm \<open>sqrt 2\<close>, which is above \<open>1 + 1e-7\<close>.
\<close>

theorem normalize_weights_unit_column_above_bound:
  "normalize_weights exact_arith CPU 1 one_unit_layer = Inr one_unit_layer \<and>
   spec_weight_column one_unit_layer 0 = [1, 1] \<and>
   \<not> l2_norm (spec_weight_column one_unit_layer 0) \<le> 1 + eps"
  using one_unit_layer_within_bound [of exact_arith] sqrt_2_bounds(1)
  by (simp add: one_unit_spec_column l2_norm_ones)

subsection \<open>The norm band\<close>

text \<open>
  C4, as the code has it. On a layer that is set up, \<^verbatim>\<open>normalize_weights\<close> with three
  arguments returns in CPU and in GPU mode, and for each of the \<open>K\<close> groups that its loop
  walks (group \<open>i\<close> holds the \<open>N\<close> elements at \<open>i\<close>, \<open>i + K\<close>, \<open>i + 2 * K\<close>, and so on):
  a group whose norm was outside the closed interval from \<open>min_norm\<close> to \<open>max_norm\<close> has
  been multiplied by the factor \<open>target_norm / (norm + 1e-7)\<close> as \<^verbatim>\<open>Dtype\<close> computes it,
  and a group whose norm was inside the interval is unchanged. Nothing is said of the norms
  after the call.
\<close>

theorem normalize_weights3_norm_band:
  assumes "blobs L = W # rest" and "height W = N_dim L" and "width W = K_dim L"
    and "length (data W) = N_dim L * K_dim L" and "mode = CPU \<or> mode = GPU"
  shows "\<exists>L'. normalize_weights3 ar mode min_norm max_norm target_norm L = Inr L' \<and>
           (\<forall>i<K_dim L.
              length (walked_group L i) = N_dim L \<and>
              (max_norm < l2_norm (walked_group L i) \<or> l2_norm (walked_group L i) < min_norm \<longrightarrow>
                 walked_group L' i =
                   map ((*) (Dtype_div ar target_norm
                               (Dtype_add ar (l2_norm (walked_group L i)) (Dtype_1e_7 ar))))
                     (walked_group L i)) \<and>
              (min_norm \<le> l2_norm (walked_group L i) \<and> l2_norm (walked_group L i) \<le> max_norm \<longrightarrow>
                 walked_group L' i = walked_group L i))"
proof -
  define L' where "L' = L\<lparr>blobs := W\<lparr>data := walk_groups ar (\<lambda>nrm. max_norm < nrm \<or> nrm < min_norm)
                                              target_norm (width W) 1 (height W) (width W)
                                              (data W)\<rparr> # rest\<rparr>"
  have r: "normalize_weights3 ar mode min_norm max_norm target_norm L = Inr L'"
    unfolding L'_def using assms(1,5) by (rule normalize_weights3_walk)
  have len: "length (data W) = height W * width W" using assms(2,3,4) by simp
  have n: "length (walked_group L i) = N_dim L" for i
    using assms(2) by (simp add: walked_group_Cons [OF assms(1)] length_column)
  have g: "walked_group L' i =
           (if max_norm < l2_norm (walked_group L i) \<or> l2_norm (walked_group L i) < min_norm
            then map ((*) (Dtype_div ar target_norm
                             (Dtype_add ar (l2_norm (walked_group L i)) (Dtype_1e_7 ar))))
                   (walked_group L i)
            else walked_group L i)" if "i < K_dim L" for i
    unfolding L'_def using assms(1) len that [folded assms(3)] by (rule walked_group_after)
  show ?thesis using r n g by auto
qed

theorem normalize_weights3_norm_band_witness:
  "blobs trained_layer = example_weight # [example_bias] \<and>
   height example_weight = N_dim trained_layer \<and> width example_weight = K_dim trained_layer \<and>
   length (data example_weight) = N_dim trained_layer * K_dim trained_layer \<and>
   (\<exists>L'. normalize_weights3 exact_arith CPU (1 / 2) 2 (3 / 2) trained_layer = Inr L' \<and>
      walked_group L' 0 = map ((*) (3 / 2 / (5 + eps))) [3, 4] \<and>
      walked_group L' 1 = [0, 1])"
proof -
  have m: "CPU = CPU \<or> CPU = GPU" by simp
  from normalize_weights3_norm_band [OF trained_layer_set_up m, of exact_arith "1 / 2" 2 "3 / 2"]
  obtain L' where
    r: "normalize_weights3 exact_arith CPU (1 / 2) 2 (3 / 2) trained_layer = Inr L'"
    and g: "\<forall>i<K_dim trained_layer.
              (2 < l2_norm (walked_group trained_layer i) \<or>
               l2_norm (walked_group trained_layer i) < 1 / 2 \<longrightarrow>
                 walked_group L' i =
                   map ((*) (Dtype_div exact_arith (3 / 2)
                               (Dtype_add exact_arith (l2_norm (walked_group trained_layer i))
                                  (Dtype_1e_7 exact_arith))))
                     (walked_group trained_layer i)) \<and>
              (1 / 2 \<le> l2_norm (walked_group trained_layer i) \<and>
               l2_norm (walked_group trained_layer i) \<le> 2 \<longrightarrow>
                 walked_group L' i = walked_group trained_layer i)"
    by blast
  have k: "(0::nat) < K_dim trained_layer" "(1::nat) < K_dim trained_layer"
    by (simp_all add: trained_layer_def)
  have "walked_group L' 0 = map ((*) (3 / 2 / (5 + eps))) [3, 4]"
    using g [rule_format, OF k(1)]
    by (simp add: trained_walked_groups l2_norm_examples exact_arith_def)
  moreover have "walked_group L' 1 = [0, 1]"
    using g [rule_format, OF k(2)]
    by (simp add: trained_walked_groups l2_norm_examples)
  ultimately show ?thesis using trained_layer_set_up r by blast
qed

text \<open>
  Two inputs on which C4 fails as it is stated. A single weight \<open>0\<close> is a column of norm
  \<open>0\<close>, outside the band from \<open>1\<close> to \<open>2\<close>; it is multiplied by the factor and stays
  \<open>0\<close>, in any arithmetic, so its new norm is not within \<open>1e-7\<close> of the target \<open>1\<close>. And
  with one output unit and the two weights \<open>1, 1\<close>, the column of the unit has norm
  \<open>sqrt 2\<close>, inside the band from \<open>6/5\<close> to \<open>2\<close>, yet both groups of the code have norm
  \<open>1\<close>, outside the band, and the weights are rescaled.
\<close>

theorem normalize_weights3_zero_column:
  "normalize_weights3 exact_arith CPU 1 2 1 (single_weight_layer 0) = Inr (single_weight_layer 0) \<and>
   l2_norm (spec_weight_column (single_weight_layer 0) 0) < 1 \<and>
   \<not> \<bar>l2_norm (spec_weight_column (single_weight_layer 0) 0) - 1\<bar> \<le> eps \<and>
   normalize_weights3 exact_arith CPU (6 / 5) 2 (13 / 10) one_unit_layer = Inr one_unit_rescaled \<and>
   6 / 5 \<le> l2_norm (spec_weight_column one_unit_layer 0) \<and>
   l2_norm (spec_weight_column one_unit_layer 0) \<le> 2 \<and>
   spec_weight_column one_unit_rescaled 0 \<noteq> spec_weight_column one_unit_layer 0"
proof -
  have a: "l2_norm (spec_weight_column (single_weight_layer 0) 0) = 0"
    by (simp add: zero_spec_column l2_norm_def)
  have "13 / 10 / (1 + eps) \<noteq> (1::real)"
    by (simp add: eps_def)
  then have b: "spec_weight_column one_unit_rescaled 0 \<noteq> spec_weight_column one_unit_layer 0"
    by (simp add: one_unit_rescaled_column one_unit_spec_column)
  show ?thesis
    using zero_weight_stays [of exact_arith] a eps_less_one one_unit_layer_band sqrt_2_bounds(2,3) b
    by (simp add: one_unit_spec_column l2_norm_ones)
qed

end
